theory Spec2Isabelle
  imports Complex_Main "HOL-Library.Sublist"
begin

section \<open>The localStorage application (the first unnamed source file)\<close>

text \<open>
  The application keeps one global object \<^verbatim>\<open>APP\<close> with the fields
  \<^verbatim>\<open>currentUser\<close>, \<^verbatim>\<open>schedules\<close>, \<^verbatim>\<open>events\<close> and \<^verbatim>\<open>approvals\<close>, and mirrors it
  into the browser's \<^verbatim>\<open>localStorage\<close> with \<^verbatim>\<open>saveUserData\<close>. Objects are records;
  the field \<^verbatim>\<open>id\<close> of a user, a schedule and an event is written \<open>uid\<close>, \<open>sid\<close> and
  \<open>eid\<close>, and a schedule's title and description carry the prefix \<open>s_\<close>. Strings are
  \<^typ>\<open>string\<close>. An instant (a \<^verbatim>\<open>Date\<close>, or the ISO-8601 string \<^verbatim>\<open>toISOString\<close> prints
  for it) is its number of milliseconds since the epoch, an \<^typ>\<open>int\<close>. The code never
  builds or reads an element of \<^verbatim>\<open>APP.approvals\<close>, so its element type is a parameter.
\<close>

datatype error = TypeError | RangeError | SyntaxError

record user =
  uid :: string
  email :: string
  role :: string
  first_name :: string
  last_name :: string

record schedule =
  sid :: int
  s_title :: string
  s_description :: string
  color :: string
  is_public :: bool
  user_id :: string

record event =
  eid :: int
  schedule_id :: "int option"
  title :: string
  start_time :: int
  end_time :: int
  location :: string
  status :: string

record 'r APP =
  currentUser :: "user option"
  schedules :: "schedule list"
  events :: "event list"
  approvals :: "'r list"

text \<open>
  The state of the page: the object \<^verbatim>\<open>APP\<close> and what \<^verbatim>\<open>localStorage\<close> holds (nothing, or
  the four items \<^verbatim>\<open>saveUserData\<close> wrote last).
\<close>

record 'r state =
  app :: "'r APP"
  localStorage :: "'r APP option"

definition saveUserData :: "'r state \<Rightarrow> 'r state" where
  "saveUserData st = st\<lparr>localStorage := Some (app st)\<rparr>"

text \<open>
  \<^verbatim>\<open>showDashboard\<close> renders the page. Of the rendering only its first failure is kept:
  the template reads \<^verbatim>\<open>APP.currentUser.role\<close>, a \<^verbatim>\<open>TypeError\<close> when nobody is logged in.
\<close>

definition showDashboard :: "'r state \<Rightarrow> error option" where
  "showDashboard st = (case currentUser (app st) of None \<Rightarrow> Some TypeError | Some u \<Rightarrow> None)"

subsection \<open>Login\<close>

text \<open>\<^verbatim>\<open>String.prototype.includes\<close>: the needle occurs as a contiguous substring.\<close>

fun js_includes :: "string \<Rightarrow> string \<Rightarrow> bool" where
  "js_includes [] needle = (needle = [])"
| "js_includes (c # cs) needle = (prefix needle (c # cs) \<or> js_includes cs needle)"

definition extractRole :: "string \<Rightarrow> string" where
  "extractRole mail =
     (if js_includes mail ''admin'' then ''admin''
      else if js_includes mail ''teacher'' then ''teacher''
      else ''student'')"

text \<open>
  \<^verbatim>\<open>role.charAt(0).toUpperCase() + role.slice(1)\<close>. The case mapping of
  \<^verbatim>\<open>String.prototype.toUpperCase\<close> is a table of the language, not of the sources: it is
  the parameter \<open>toUpperCase\<close>, from strings to strings, of everything that logs a user in.
  The empty string has no first character to map.
\<close>

definition capitalize :: "(string \<Rightarrow> string) \<Rightarrow> string \<Rightarrow> string" where
  "capitalize toUpperCase r = (case r of [] \<Rightarrow> [] | c # cs \<Rightarrow> toUpperCase [c] @ cs)"

text \<open>
  \<^verbatim>\<open>loadSampleData\<close> reads the clock four times (\<^verbatim>\<open>Date.now()\<close>); the readings are the
  argument \<open>now\<close>. The array literal of the schedules reads \<^verbatim>\<open>APP.currentUser.id\<close> before
  anything is assigned.
\<close>

definition sampleSchedules :: "string \<Rightarrow> schedule list" where
  "sampleSchedules u =
     [\<lparr>sid = 1, s_title = ''Spring 2025 Classes'', s_description = ''All spring classes'',
        color = ''#3b82f6'', is_public = True, user_id = u\<rparr>,
      \<lparr>sid = 2, s_title = ''Lab Schedule'', s_description = ''Weekly lab sessions'',
        color = ''#10b981'', is_public = False, user_id = u\<rparr>]"

definition sampleEvents :: "int \<times> int \<times> int \<times> int \<Rightarrow> event list" where
  "sampleEvents now =
     (case now of (t1, t2, t3, t4) \<Rightarrow>
       [\<lparr>eid = 1, schedule_id = Some 1, title = ''Math 101'',
          start_time = t1 + 86400000, end_time = t2 + 90000000,
          location = ''Room 101'', status = ''approved''\<rparr>,
        \<lparr>eid = 2, schedule_id = Some 1, title = ''Physics Lab'',
          start_time = t3 + 172800000, end_time = t4 + 176400000,
          location = ''Lab B'', status = ''pending''\<rparr>])"

definition loadSampleData :: "int \<times> int \<times> int \<times> int \<Rightarrow> 'r state \<Rightarrow> error option \<times> 'r state" where
  "loadSampleData now st =
     (if length (schedules (app st)) = 0 then
        (case currentUser (app st) of
           None \<Rightarrow> (Some TypeError, st)
         | Some u \<Rightarrow>
             (None, saveUserData (st\<lparr>app := (app st)\<lparr>schedules := sampleSchedules (uid u),
                                                      events := sampleEvents now\<rparr>\<rparr>)))
      else (None, st))"

text \<open>
  \<^verbatim>\<open>quickLogin(email, role)\<close>; \<open>rnd\<close> is the string \<^verbatim>\<open>Math.random().toString(36).substr(2, 9)\<close>.
\<close>

definition quickLogin ::
  "(string \<Rightarrow> string) \<Rightarrow> string \<Rightarrow> string \<Rightarrow> string \<Rightarrow> int \<times> int \<times> int \<times> int \<Rightarrow> 'r state
     \<Rightarrow> error option \<times> 'r state" where
  "quickLogin toUpperCase mail r rnd now st =
     (let st1 = saveUserData (st\<lparr>app := (app st)\<lparr>currentUser :=
                  Some \<lparr>uid = rnd, email = mail, role = r,
                        first_name = capitalize toUpperCase r,
                        last_name = ''User''\<rparr>\<rparr>\<rparr>)
      in case loadSampleData now st1 of
           (Some err, st2) \<Rightarrow> (Some err, st2)
         | (None, st2) \<Rightarrow> (showDashboard st2, st2))"

text \<open>
  \<^verbatim>\<open>handleLogin\<close> reads the two inputs of the login form; an empty one only raises an
  alert.
\<close>

definition handleLogin ::
  "(string \<Rightarrow> string) \<Rightarrow> string \<Rightarrow> string \<Rightarrow> string \<Rightarrow> int \<times> int \<times> int \<times> int \<Rightarrow> 'r state
     \<Rightarrow> error option \<times> 'r state" where
  "handleLogin toUpperCase mail password rnd now st =
     (if mail = [] \<or> password = [] then (None, st)
      else quickLogin toUpperCase mail (extractRole mail) rnd now st)"

subsection \<open>Creating schedules and events\<close>

text \<open>
  The forms as the handlers read them. \<^verbatim>\<open>Number.parseInt\<close> of the chosen schedule is
  \<open>None\<close> for \<^verbatim>\<open>NaN\<close>; \<^verbatim>\<open>new Date(value)\<close> of a time input is \<open>None\<close> for an invalid
  date, on which \<^verbatim>\<open>toISOString\<close> throws a \<^verbatim>\<open>RangeError\<close>.
\<close>

record schedule_form =
  sform_title :: string
  sform_description :: string
  sform_color :: string
  sform_is_public :: bool

record event_form =
  form_schedule_id :: "int option"
  form_title :: string
  form_start_time :: "int option"
  form_end_time :: "int option"
  form_location :: string

definition createSchedule :: "schedule_form \<Rightarrow> int \<Rightarrow> 'r state \<Rightarrow> error option \<times> 'r state" where
  "createSchedule form now st =
     (case currentUser (app st) of
        None \<Rightarrow> (Some TypeError, st)
      | Some u \<Rightarrow>
          (let s = \<lparr>sid = now, s_title = sform_title form,
                     s_description = sform_description form, color = sform_color form,
                     is_public = sform_is_public form, user_id = uid u\<rparr>;
               st1 = saveUserData (st\<lparr>app := (app st)\<lparr>schedules := schedules (app st) @ [s]\<rparr>\<rparr>)
           in (showDashboard st1, st1)))"

definition createEvent :: "event_form \<Rightarrow> int \<Rightarrow> 'r state \<Rightarrow> error option \<times> 'r state" where
  "createEvent form now st =
     (case form_start_time form of
        None \<Rightarrow> (Some RangeError, st)
      | Some s \<Rightarrow>
     (case form_end_time form of
        None \<Rightarrow> (Some RangeError, st)
      | Some e \<Rightarrow>
     (case currentUser (app st) of
        None \<Rightarrow> (Some TypeError, st)
      | Some u \<Rightarrow>
          (let ev = \<lparr>eid = now, schedule_id = form_schedule_id form, title = form_title form,
                      start_time = s, end_time = e, location = form_location form,
                      status = (if role u = ''admin'' then ''approved'' else ''pending'')\<rparr>;
               st1 = saveUserData (st\<lparr>app := (app st)\<lparr>events := events (app st) @ [ev]\<rparr>\<rparr>)
           in (showDashboard st1, st1)))))"

subsection \<open>Approving and declining\<close>

text \<open>
  \<^verbatim>\<open>APP.events.find((e) => e.id === id)\<close> followed by \<^verbatim>\<open>event.status = s\<close>: the first
  event with the id is updated in place; \<open>None\<close> when \<^verbatim>\<open>find\<close> returns \<^verbatim>\<open>undefined\<close>,
  where the assignment throws a \<^verbatim>\<open>TypeError\<close>.
\<close>

fun find_event :: "int \<Rightarrow> event list \<Rightarrow> event option" where
  "find_event i [] = None"
| "find_event i (e # es) = (if eid e = i then Some e else find_event i es)"

fun set_status :: "int \<Rightarrow> string \<Rightarrow> event list \<Rightarrow> event list option" where
  "set_status i s [] = None"
| "set_status i s (e # es) =
     (if eid e = i then Some (e\<lparr>status := s\<rparr> # es)
      else map_option ((#) e) (set_status i s es))"

definition approveEvent :: "int \<Rightarrow> 'r state \<Rightarrow> error option \<times> 'r state" where
  "approveEvent i st =
     (case set_status i ''approved'' (events (app st)) of
        None \<Rightarrow> (Some TypeError, st)
      | Some es \<Rightarrow>
          (let st1 = saveUserData (st\<lparr>app := (app st)\<lparr>events := es\<rparr>\<rparr>)
           in (showDashboard st1, st1)))"

definition declineEvent :: "int \<Rightarrow> 'r state \<Rightarrow> error option \<times> 'r state" where
  "declineEvent i st =
     (case set_status i ''declined'' (events (app st)) of
        None \<Rightarrow> (Some TypeError, st)
      | Some es \<Rightarrow>
          (let st1 = saveUserData (st\<lparr>app := (app st)\<lparr>events := es\<rparr>\<rparr>)
           in (showDashboard st1, st1)))"

section \<open>JSON values and the requests of the API modules\<close>

text \<open>
  The API modules exchange JSON with a server through \<^verbatim>\<open>fetch\<close>. A JSON value is a
  \<open>json\<close>; \<open>JDate t\<close> is the string that is the ISO-8601 text of the instant \<open>t\<close>. An URL is
  a template literal: its texts and the values it interpolates. The server is not part
  of the sources: \<^verbatim>\<open>fetch\<close> is a parameter that answers a request either by rejecting
  with a message or with a response, whose \<^verbatim>\<open>json()\<close> yields a value or rejects in turn.
\<close>

datatype json =
    JNull
  | JBool bool
  | JNum int
  | JStr string
  | JDate int
  | JArr "json list"
  | JObj "(string \<times> json) list"

text \<open>Reading a property of an object (\<open>None\<close> is \<^verbatim>\<open>undefined\<close>), and JavaScript's truthiness.\<close>

fun field :: "string \<Rightarrow> json \<Rightarrow> json option" where
  "field k (JObj kvs) = map_of (rev kvs) k"
| "field k v = None"

fun truthy :: "json option \<Rightarrow> bool" where
  "truthy None = False"
| "truthy (Some JNull) = False"
| "truthy (Some (JBool b)) = b"
| "truthy (Some (JNum n)) = (n \<noteq> 0)"
| "truthy (Some (JStr s)) = (s \<noteq> [])"
| "truthy (Some v) = True"

datatype url_part = Text string | Interp json

record request =
  url :: "url_part list"
  http_method :: string
  body :: "json option"

record response =
  ok :: bool
  json_result :: "string + json"

datatype fetched = Rejected string | Resolved response

section \<open>The approval manager (src/frontend/notifications.js)\<close>





section \<open>The overlap detector (the second unnamed source file, first module)\<close>

definition API_BASE :: string where
  "API_BASE = ''https://api.example.com''"

text \<open>
  The body of the three \<^verbatim>\<open>try\<close> blocks: post the payload, then \<^verbatim>\<open>response.json()\<close>.
  \<open>Inl\<close> carries the message of the error the \<^verbatim>\<open>catch\<close> receives.
\<close>

definition post_json :: "(request \<Rightarrow> fetched) \<Rightarrow> string \<Rightarrow> json \<Rightarrow> string + json" where
  "post_json fetch path payload =
     (case fetch \<lparr>url = [Text API_BASE, Text path], http_method = ''POST'', body = Some payload\<rparr> of
        Rejected msg \<Rightarrow> Inl msg
      | Resolved resp \<Rightarrow> json_result resp)"

text \<open>A parameter with the default \<^verbatim>\<open>null\<close>.\<close>

definition or_null :: "json option \<Rightarrow> json" where
  "or_null v = (case v of None \<Rightarrow> JNull | Some x \<Rightarrow> x)"

definition checkEventOverlap ::
  "(request \<Rightarrow> fetched) \<Rightarrow> json \<Rightarrow> json \<Rightarrow> json \<Rightarrow> json option \<Rightarrow> json" where
  "checkEventOverlap fetch scheduleId startTime endTime excludeEventId =
     (case post_json fetch ''/scheduling/check-overlap''
             (JObj [(''schedule_id'', scheduleId), (''start_time'', startTime),
                    (''end_time'', endTime), (''exclude_event_id'', or_null excludeEventId)]) of
        Inr result \<Rightarrow> result
      | Inl msg \<Rightarrow> JObj [(''has_overlap'', JBool False), (''error'', JStr msg)])"

definition checkFacilityAvailability ::
  "(request \<Rightarrow> fetched) \<Rightarrow> json \<Rightarrow> json \<Rightarrow> json \<Rightarrow> json \<Rightarrow> json" where
  "checkFacilityAvailability fetch building roomNumber startTime endTime =
     (case post_json fetch ''/scheduling/facility-availability''
             (JObj [(''building'', building), (''room_number'', roomNumber),
                    (''start_time'', startTime), (''end_time'', endTime)]) of
        Inr result \<Rightarrow> result
      | Inl msg \<Rightarrow> JObj [(''available'', JBool True), (''error'', JStr msg)])"

definition getSuggestedTimes ::
  "(request \<Rightarrow> fetched) \<Rightarrow> json \<Rightarrow> json \<Rightarrow> json \<Rightarrow> json option \<Rightarrow> json" where
  "getSuggestedTimes fetch scheduleId startTime endTime durationMinutes =
     (case post_json fetch ''/scheduling/suggest-times''
             (JObj [(''schedule_id'', scheduleId), (''start_time'', startTime),
                    (''end_time'', endTime), (''duration_minutes'', or_null durationMinutes)]) of
        Inr result \<Rightarrow> result
      | Inl msg \<Rightarrow> JObj [(''alternatives'', JArr [])])"

text \<open>Two servers for the examples: one that cannot be reached, one that has no suggestion.\<close>

definition network_down :: "request \<Rightarrow> fetched" where
  "network_down req = Rejected ''Failed to fetch''"

definition no_suggestions_server :: "request \<Rightarrow> fetched" where
  "no_suggestions_server req =
     Resolved \<lparr>ok = True, json_result = Inr (JObj [(''alternatives'', JArr [])])\<rparr>"

section \<open>Numbers and dates of JavaScript\<close>

text \<open>
  A JavaScript number is an IEEE-754 double. A finite double is modelled by the rational
  it denotes, and \<open>None\<close> stands for a number that is not finite (\<^verbatim>\<open>NaN\<close> or an infinity).
  Each arithmetic operation returns the exact result rounded to the nearest double, ties
  to even: \<open>pow2_scale q\<close> is the power of two that brings a positive \<open>q\<close> into the range
  of a 53-bit significand, capped at \<open>2 ^ 1074\<close> for the subnormal numbers, and a result
  beyond the largest double is an infinity. The sign of zero is not kept.
\<close>

function pow2_scale :: "rat \<Rightarrow> rat" where
  "pow2_scale q =
     (if q \<le> 0 then 1
      else if q < 2 ^ 52 then 2 * pow2_scale (2 * q)
      else if 2 ^ 53 \<le> q then pow2_scale (q / 2) / 2
      else 1)"
  by pat_completeness auto
termination
proof (relation "measure (\<lambda>q. if q < 2 ^ 52 then nat \<lceil>2 ^ 52 / q\<rceil> else if 2 ^ 53 \<le> q then nat \<lceil>q\<rceil> else 0)")
  show "wf (measure (\<lambda>q::rat. if q < 2 ^ 52 then nat \<lceil>2 ^ 52 / q\<rceil> else if 2 ^ 53 \<le> q then nat \<lceil>q\<rceil> else 0))"
    by simp
next
  fix q :: rat
  assume a: "\<not> q \<le> 0" "q < 2 ^ 52"
  define r where "r = 2 ^ 52 / (2 * q)"
  have r0: "1 / 2 < r" using a by (simp add: r_def)
  have eq: "2 ^ 52 / q = 2 * r" using a by (simp add: r_def)
  have pos: "0 < nat \<lceil>2 * r\<rceil>" using r0 by linarith
  have dec: "nat \<lceil>r\<rceil> < nat \<lceil>2 * r\<rceil>" if "1 < r"
  proof -
    have "of_int \<lceil>r\<rceil> < r + 1" by linarith
    also have "\<dots> < 2 * r" using that by simp
    finally have "\<lceil>r\<rceil> < \<lceil>2 * r\<rceil>" by (simp add: less_ceiling_iff)
    moreover have "0 < \<lceil>r\<rceil>" using that by linarith
    ultimately show ?thesis by linarith
  qed
  have small: "1 < r" if "2 * q < 2 ^ 52" using that a by (simp add: r_def)
  show "(2 * q, q) \<in> measure (\<lambda>q. if q < 2 ^ 52 then nat \<lceil>2 ^ 52 / q\<rceil> else if 2 ^ 53 \<le> q then nat \<lceil>q\<rceil> else 0)"
  proof (cases "2 * q < 2 ^ 52")
    case True
    from dec [OF small [OF True]] True a show ?thesis
      by (simp add: eq) (simp add: r_def)
  next
    case False
    with a pos show ?thesis by (simp add: eq)
  qed
next
  fix q :: rat
  assume a: "\<not> q \<le> 0" "\<not> q < 2 ^ 52" "2 ^ 53 \<le> q"
  have "of_int \<lceil>q / 2\<rceil> < q / 2 + 1" by linarith
  also have "\<dots> \<le> q" using a by simp
  finally have "\<lceil>q / 2\<rceil> < \<lceil>q\<rceil>" by (simp add: less_ceiling_iff)
  moreover have "0 < \<lceil>q\<rceil>" using a by linarith
  ultimately have "nat \<lceil>q / 2\<rceil> < nat \<lceil>q\<rceil>" by linarith
  moreover have "0 < nat \<lceil>q\<rceil>" using a by linarith
  ultimately show "(q / 2, q) \<in> measure (\<lambda>q. if q < 2 ^ 52 then nat \<lceil>2 ^ 52 / q\<rceil> else if 2 ^ 53 \<le> q then nat \<lceil>q\<rceil> else 0)"
    using a by auto
qed

definition round_half_even :: "rat \<Rightarrow> int" where
  "round_half_even q =
     (let f = \<lfloor>q\<rfloor>; r = q - of_int f
      in if r < 1 / 2 then f else if 1 / 2 < r then f + 1 else if even f then f else f + 1)"

definition double_max :: rat where
  "double_max = (2 ^ 53 - 1) * 2 ^ 971"

definition round_double :: "rat \<Rightarrow> rat option" where
  "round_double q =
     (let p = min (pow2_scale \<bar>q\<bar>) (2 ^ 1074);
          r = of_int (round_half_even (q * p)) / p
      in if \<bar>r\<bar> \<le> double_max then Some r else None)"

text \<open>The operators \<^verbatim>\<open>+\<close>, \<^verbatim>\<open>-\<close>, \<^verbatim>\<open>*\<close> and \<^verbatim>\<open>/\<close> on numbers.\<close>

definition num_add :: "rat option \<Rightarrow> rat option \<Rightarrow> rat option" where
  "num_add a b =
     (case a of None \<Rightarrow> None | Some x \<Rightarrow> (case b of None \<Rightarrow> None | Some y \<Rightarrow> round_double (x + y)))"

definition num_sub :: "rat option \<Rightarrow> rat option \<Rightarrow> rat option" where
  "num_sub a b =
     (case a of None \<Rightarrow> None | Some x \<Rightarrow> (case b of None \<Rightarrow> None | Some y \<Rightarrow> round_double (x - y)))"

definition num_mul :: "rat option \<Rightarrow> rat option \<Rightarrow> rat option" where
  "num_mul a b =
     (case a of None \<Rightarrow> None | Some x \<Rightarrow> (case b of None \<Rightarrow> None | Some y \<Rightarrow> round_double (x * y)))"

definition num_div :: "rat option \<Rightarrow> rat option \<Rightarrow> rat option" where
  "num_div a b =
     (case a of None \<Rightarrow> None
      | Some x \<Rightarrow> (case b of None \<Rightarrow> None
          | Some y \<Rightarrow> if y = 0 then None else round_double (x / y)))"

text \<open>
  A \<^verbatim>\<open>Date\<close> is its time value, \<open>None\<close> when the date is invalid. \<^verbatim>\<open>new Date(v)\<close> of a
  number clips it: a number that is not finite or beyond 8.64e15 in magnitude gives an
  invalid date, any other is truncated towards zero.
\<close>

definition getTime :: "int option \<Rightarrow> rat option" where
  "getTime d = map_option of_int d"

definition TimeClip :: "rat option \<Rightarrow> int option" where
  "TimeClip v =
     (case v of
        None \<Rightarrow> None
      | Some x \<Rightarrow> if 8640000000000000 < \<bar>x\<bar> then None
                  else Some (if 0 \<le> x then \<lfloor>x\<rfloor> else \<lceil>x\<rceil>))"

text \<open>
  The two lines both drop handlers share:
  \<^verbatim>\<open>duration = (new Date(event.end_time) - new Date(event.start_time)) / (1000 * 60)\<close> and
  \<^verbatim>\<open>newEndTime = new Date(newStartTime.getTime() + duration * 60 * 1000)\<close>.
\<close>

definition durationMinutes :: "int option \<Rightarrow> int option \<Rightarrow> rat option" where
  "durationMinutes start_date end_date =
     num_div (num_sub (getTime end_date) (getTime start_date)) (num_mul (Some 1000) (Some 60))"

definition newEndTime :: "int option \<Rightarrow> rat option \<Rightarrow> int option" where
  "newEndTime newStartTime duration =
     TimeClip (num_add (getTime newStartTime) (num_mul (num_mul duration (Some 60)) (Some 1000)))"

declare pow2_scale.simps [simp del]

section \<open>Drag and drop (the second unnamed source file, second module)\<close>

text \<open>The module's own \<^verbatim>\<open>OverlapDetector.checkEventOverlap\<close>, a stand-in that asks no server.\<close>

definition mock_checkEventOverlap :: "json \<Rightarrow> json \<Rightarrow> json \<Rightarrow> json \<Rightarrow> json" where
  "mock_checkEventOverlap scheduleId startTime endTime eventId = JObj [(''has_overlap'', JBool False)]"

text \<open>
  The dragged event as \<^verbatim>\<open>JSON.parse\<close> returns it, its two times already read by
  \<^verbatim>\<open>new Date\<close>. The local time zone of the browser is a parameter: the hours and minutes
  of an instant, and \<^verbatim>\<open>setHours\<close> with hours, minutes and optional seconds.
\<close>

record drag_event =
  drag_id :: json
  drag_schedule_id :: json
  drag_start_time :: "int option"
  drag_end_time :: "int option"

record local_time =
  getHours :: "int \<Rightarrow> int"
  getMinutes :: "int \<Rightarrow> int"
  setHours :: "int \<Rightarrow> int \<Rightarrow> int \<Rightarrow> int option \<Rightarrow> int option"

text \<open>The \<^verbatim>\<open>PUT\<close> request both handlers send for the moved event.\<close>

definition put_event :: "json \<Rightarrow> int \<Rightarrow> int \<Rightarrow> request" where
  "put_event ident new_start new_end =
     \<lparr>url = [Text API_BASE, Text ''/events/'', Interp ident], http_method = ''PUT'',
      body = Some (JObj [(''start_time'', JDate new_start), (''end_time'', JDate new_end)])\<rparr>"

text \<open>
  \<^verbatim>\<open>DragDropManager.handleEventDroppedOnDate(e, newDate)\<close>: the request it sends, if any.
  \<open>None\<close> as payload is an empty or unparsable \<^verbatim>\<open>dataTransfer\<close> item; an invalid date
  makes \<^verbatim>\<open>toISOString\<close> throw, which the handler catches. The hours and minutes of a date
  are not negative.
\<close>

definition handleEventDroppedOnDate ::
  "local_time \<Rightarrow> drag_event option \<Rightarrow> int option \<Rightarrow> request option" where
  "handleEventDroppedOnDate tz eventData newDate =
     (case eventData of
        None \<Rightarrow> None
      | Some ev \<Rightarrow>
          (let newStartTime =
                 (case drag_start_time ev of
                    None \<Rightarrow> None
                  | Some oldDate \<Rightarrow>
                      (case newDate of
                         None \<Rightarrow> None
                       | Some d \<Rightarrow>
                           (let timeDiff = getHours tz oldDate * 60 + getMinutes tz oldDate
                            in setHours tz d (timeDiff div 60) (timeDiff mod 60) None)));
               duration = durationMinutes (drag_start_time ev) (drag_end_time ev);
               newEnd = newEndTime newStartTime duration
           in case newStartTime of
                None \<Rightarrow> None
              | Some ns \<Rightarrow>
                  (case newEnd of
                     None \<Rightarrow> None
                   | Some ne \<Rightarrow>
                       if truthy (field ''has_overlap''
                            (mock_checkEventOverlap (drag_schedule_id ev) (JDate ns) (JDate ne)
                               (drag_id ev)))
                       then None
                       else Some (put_event (drag_id ev) ns ne))))"

text \<open>
  \<^verbatim>\<open>TimeblockDragDrop.rescheduleEvent(eventDataStr, newTime)\<close>; \<open>now\<close> is \<^verbatim>\<open>new Date()\<close>,
  and \<open>hours\<close> and \<open>minutes\<close> are the two numbers read from \<^verbatim>\<open>newTime\<close> (\<open>None\<close> for
  \<^verbatim>\<open>NaN\<close>). \<^verbatim>\<open>JSON.parse\<close> is outside the \<^verbatim>\<open>try\<close> block.
\<close>

definition rescheduleEvent ::
  "local_time \<Rightarrow> int \<Rightarrow> drag_event option \<Rightarrow> int option \<Rightarrow> int option \<Rightarrow> error + request option" where
  "rescheduleEvent tz now eventData hours minutes =
     (case eventData of
        None \<Rightarrow> Inl SyntaxError
      | Some ev \<Rightarrow>
          (let newStartTime =
                 (case hours of
                    None \<Rightarrow> None
                  | Some h \<Rightarrow>
                      (case minutes of None \<Rightarrow> None | Some m \<Rightarrow> setHours tz now h m (Some 0)));
               duration = durationMinutes (drag_start_time ev) (drag_end_time ev);
               newEnd = newEndTime newStartTime duration
           in Inr (case newStartTime of
                     None \<Rightarrow> None
                   | Some ns \<Rightarrow>
                       (case newEnd of
                          None \<Rightarrow> None
                        | Some ne \<Rightarrow> Some (put_event (drag_id ev) ns ne)))))"

text \<open>For the examples: a browser in the time zone UTC, and an event of 2 minutes 3 seconds.\<close>

definition utc :: local_time where
  "utc = \<lparr>getHours = (\<lambda>t. (t div 3600000) mod 24),
          getMinutes = (\<lambda>t. (t div 60000) mod 60),
          setHours = (\<lambda>t h m s.
            Some (t - t mod 86400000 + h * 3600000 + m * 60000 +
              (case s of None \<Rightarrow> t mod 60000 | Some sec \<Rightarrow> sec * 1000 + t mod 1000)))\<rparr>"

definition short_talk :: drag_event where
  "short_talk = \<lparr>drag_id = JNum 7, drag_schedule_id = JNum 1,
                  drag_start_time = Some 0, drag_end_time = Some 123000\<rparr>"

section \<open>Example states and the operations of the page\<close>

text \<open>
  The state of a freshly loaded page, and the state after one of the demo account buttons
  (\<^verbatim>\<open>quickLogin('admin@campus.edu', 'admin')\<close> and its siblings) was pressed.
\<close>

definition initial_state :: "unit state" where
  "initial_state = \<lparr>app = \<lparr>currentUser = None, schedules = [], events = [], approvals = []\<rparr>,
                     localStorage = None\<rparr>"

text \<open>
  For the examples, the case mapping on the letters a to z, which are the letters the
  three role names begin with.
\<close>

definition ascii_toUpperCase :: "string \<Rightarrow> string" where
  "ascii_toUpperCase =
     map (\<lambda>c. let n = (of_char c :: nat) in if 97 \<le> n \<and> n \<le> 122 then char_of (n - 32) else c)"

definition demo_state :: "string \<Rightarrow> unit state" where
  "demo_state r =
     snd (quickLogin ascii_toUpperCase (r @ ''@campus.edu'') r ''k3j9x0q1z'' (0, 0, 0, 0)
            initial_state)"

definition seminar_form :: event_form where
  "seminar_form = \<lparr>form_schedule_id = Some 1, form_title = ''Seminar'',
      form_start_time = Some 259200000, form_end_time = Some 262800000,
      form_location = ''Room 7''\<rparr>"

definition backwards_form :: event_form where
  "backwards_form = \<lparr>form_schedule_id = Some 1, form_title = ''Backwards'',
      form_start_time = Some 262800000, form_end_time = Some 259200000,
      form_location = ''Room 7''\<rparr>"

text \<open>The handlers the page wires to its buttons and forms, as one type of operations.\<close>

datatype operation =
    CreateSchedule schedule_form int
  | CreateEvent event_form int
  | ApproveEvent int
  | DeclineEvent int
  | LoadSampleData "int \<times> int \<times> int \<times> int"
  | QuickLogin string string string "int \<times> int \<times> int \<times> int"
  | HandleLogin string string string "int \<times> int \<times> int \<times> int"

fun perform :: "(string \<Rightarrow> string) \<Rightarrow> operation \<Rightarrow> 'r state \<Rightarrow> error option \<times> 'r state" where
  "perform toUpperCase (CreateSchedule form now) st = createSchedule form now st"
| "perform toUpperCase (CreateEvent form now) st = createEvent form now st"
| "perform toUpperCase (ApproveEvent i) st = approveEvent i st"
| "perform toUpperCase (DeclineEvent i) st = declineEvent i st"
| "perform toUpperCase (LoadSampleData now) st = loadSampleData now st"
| "perform toUpperCase (QuickLogin mail r rnd now) st = quickLogin toUpperCase mail r rnd now st"
| "perform toUpperCase (HandleLogin mail password rnd now) st =
     handleLogin toUpperCase mail password rnd now st"

section \<open>The specification's rules, for comparison\<close>

text \<open>
  The initial status as the specification words it: approved when the creating role is
  the administrator's or the event does not require approval, pending otherwise.
\<close>

definition spec_initial_status :: "string \<Rightarrow> bool \<Rightarrow> string" where
  "spec_initial_status r requiresApproval =
     (if r = ''admin'' \<or> \<not> requiresApproval then ''approved'' else ''pending'')"

section \<open>Helper lemmas\<close>

lemma js_includes_iff: "js_includes s needle \<longleftrightarrow> (\<exists>p q. s = p @ needle @ q)"
proof (induction s)
  case Nil
  then show ?case by auto
next
  case (Cons c cs)
  show ?case
  proof
    assume "js_includes (c # cs) needle"
    then consider "prefix needle (c # cs)" | "js_includes cs needle" by auto
    then show "\<exists>p q. c # cs = p @ needle @ q"
    proof cases
      case 1
      then obtain q where "c # cs = needle @ q" by (auto simp: prefix_def)
      then have "c # cs = [] @ needle @ q" by simp
      then show ?thesis by blast
    next
      case 2
      with Cons.IH obtain p q where "cs = p @ needle @ q" by blast
      then have "c # cs = (c # p) @ needle @ q" by simp
      then show ?thesis by blast
    qed
  next
    assume "\<exists>p q. c # cs = p @ needle @ q"
    then obtain p q where pq: "c # cs = p @ needle @ q" by blast
    show "js_includes (c # cs) needle"
    proof (cases p)
      case Nil
      with pq have "prefix needle (c # cs)" by (simp add: prefix_def)
      then show ?thesis by simp
    next
      case (Cons a p')
      with pq have "cs = p' @ needle @ q" by simp
      with Cons.IH have "js_includes cs needle" by blast
      then show ?thesis by simp
    qed
  qed
qed

lemma sublist_js_includes: "sublist needle s = js_includes s needle"
  by (simp add: js_includes_iff sublist_def)

lemma demo_state_eq:
  "demo_state r =
    (let a = \<lparr>currentUser = Some \<lparr>uid = ''k3j9x0q1z'', email = r @ ''@campus.edu'', role = r,
                 first_name = capitalize ascii_toUpperCase r, last_name = ''User''\<rparr>,
               schedules = sampleSchedules ''k3j9x0q1z'', events = sampleEvents (0, 0, 0, 0),
               approvals = []\<rparr>
     in \<lparr>app = a, localStorage = Some a\<rparr>)"
  by (simp add: demo_state_def quickLogin_def initial_state_def loadSampleData_def
      saveUserData_def showDashboard_def Let_def)

lemma demo_state_simps:
  "currentUser (app (demo_state r)) = Some \<lparr>uid = ''k3j9x0q1z'', email = r @ ''@campus.edu'', role = r,
                 first_name = capitalize ascii_toUpperCase r, last_name = ''User''\<rparr>"
  "events (app (demo_state r)) = sampleEvents (0, 0, 0, 0)"
  "schedules (app (demo_state r)) = sampleSchedules ''k3j9x0q1z''"
  "approvals (app (demo_state r)) = []"
  by (simp_all add: demo_state_eq Let_def)

lemma createEvent_ok:
  assumes "currentUser (app st) = Some u" "form_start_time form = Some s" "form_end_time form = Some e"
  shows "createEvent form now st =
      (None, saveUserData (st\<lparr>app := (app st)\<lparr>events := events (app st) @
         [\<lparr>eid = now, schedule_id = form_schedule_id form, title = form_title form,
           start_time = s, end_time = e, location = form_location form,
           status = (if role u = ''admin'' then ''approved'' else ''pending'')\<rparr>]\<rparr>\<rparr>))"
  using assms by (simp add: createEvent_def Let_def showDashboard_def saveUserData_def)

lemma set_status_None: "set_status i s es = None \<longleftrightarrow> find_event i es = None"
  by (induction es) auto

lemma set_status_Some:
  "find_event i es = Some e \<Longrightarrow>
     \<exists>es'. set_status i s es = Some es' \<and> find_event i es' = Some (e\<lparr>status := s\<rparr>)
        \<and> map eid es' = map eid es
        \<and> (\<forall>j. j \<noteq> i \<longrightarrow> find_event j es' = find_event j es)"
  by (induction es) auto

lemma approveEvent_absent:
  "find_event i (events (app st)) = None \<Longrightarrow> approveEvent i st = (Some TypeError, st)"
  by (simp add: approveEvent_def set_status_None [THEN iffD2])

lemma declineEvent_absent:
  "find_event i (events (app st)) = None \<Longrightarrow> declineEvent i st = (Some TypeError, st)"
  by (simp add: declineEvent_def set_status_None [THEN iffD2])

lemma approveEvent_present:
  assumes "find_event i (events (app st)) = Some e"
  shows "fst (approveEvent i st) = showDashboard st
    \<and> find_event i (events (app (snd (approveEvent i st)))) = Some (e\<lparr>status := ''approved''\<rparr>)
    \<and> (\<forall>j. j \<noteq> i \<longrightarrow> find_event j (events (app (snd (approveEvent i st)))) = find_event j (events (app st)))"
proof -
  from set_status_Some [OF assms, of "''approved''"] obtain es' where
    "set_status i ''approved'' (events (app st)) = Some es'"
    "find_event i es' = Some (e\<lparr>status := ''approved''\<rparr>)"
    "\<forall>j. j \<noteq> i \<longrightarrow> find_event j es' = find_event j (events (app st))"
    by blast
  then show ?thesis
    by (simp add: approveEvent_def Let_def saveUserData_def showDashboard_def)
qed

lemma declineEvent_present:
  assumes "find_event i (events (app st)) = Some e"
  shows "fst (declineEvent i st) = showDashboard st
    \<and> find_event i (events (app (snd (declineEvent i st)))) = Some (e\<lparr>status := ''declined''\<rparr>)
    \<and> (\<forall>j. j \<noteq> i \<longrightarrow> find_event j (events (app (snd (declineEvent i st)))) = find_event j (events (app st)))"
proof -
  from set_status_Some [OF assms, of "''declined''"] obtain es' where
    "set_status i ''declined'' (events (app st)) = Some es'"
    "find_event i es' = Some (e\<lparr>status := ''declined''\<rparr>)"
    "\<forall>j. j \<noteq> i \<longrightarrow> find_event j es' = find_event j (events (app st))"
    by blast
  then show ?thesis
    by (simp add: declineEvent_def Let_def saveUserData_def showDashboard_def)
qed

lemma floor_rat_numeral_divide:
  "\<lfloor>numeral a / numeral b :: rat\<rfloor> = numeral a div numeral b"
  by (metis floor_divide_of_int_eq of_int_numeral)

lemma floor_rat_minus_numeral_divide:
  "\<lfloor>- (numeral a / numeral b) :: rat\<rfloor> = - numeral a div numeral b"
  by (metis divide_minus_left floor_divide_of_int_eq of_int_neg_numeral of_int_numeral)

lemma ceiling_rat_numeral_divide:
  "\<lceil>numeral a / numeral b :: rat\<rceil> = - (- numeral a div numeral b)"
  by (simp add: ceiling_def floor_rat_minus_numeral_divide)

lemma ceiling_rat_minus_numeral_divide:
  "\<lceil>- (numeral a / numeral b) :: rat\<rceil> = - (numeral a div numeral b)"
  by (simp add: ceiling_def floor_rat_numeral_divide)

lemmas double_eval = round_double_def pow2_scale.simps round_half_even_def Let_def double_max_def
  floor_rat_numeral_divide floor_rat_minus_numeral_divide
  ceiling_rat_numeral_divide ceiling_rat_minus_numeral_divide
  num_add_def num_sub_def num_mul_def num_div_def getTime_def TimeClip_def

lemma duration_short_talk:
  "durationMinutes (Some 0) (Some 123000) = Some (2308094809027379 / 1125899906842624)"
  by (simp add: durationMinutes_def double_eval)

lemma newEnd_short_talk:
  "newEndTime (Some 0) (Some (2308094809027379 / 1125899906842624)) = Some 122999"
  by (simp add: newEndTime_def double_eval)

lemma duration_shortened:
  "durationMinutes (Some 0) (Some 122999) = Some (577019011007233 / 281474976710656)"
  by (simp add: durationMinutes_def double_eval)

lemma pow2_scale_small:
  "0 < q \<Longrightarrow> q < 2 ^ 53 \<Longrightarrow> \<exists>m. pow2_scale q = 2 ^ m \<and> 2 ^ 52 \<le> q * 2 ^ m \<and> q * 2 ^ m < 2 ^ 53"
proof (induction q rule: pow2_scale.induct)
  case (1 q)
  show ?case
  proof (cases "q < 2 ^ 52")
    case True
    with "1.prems" have "\<not> q \<le> 0" "0 < 2 * q" "2 * q < 2 ^ 53" by simp_all
    with "1.IH"(1) True obtain m where
      m: "pow2_scale (2 * q) = 2 ^ m" "2 ^ 52 \<le> 2 * q * 2 ^ m" "2 * q * 2 ^ m < 2 ^ 53"
      by blast
    have "pow2_scale q = 2 * pow2_scale (2 * q)"
      using True \<open>\<not> q \<le> 0\<close> by (subst pow2_scale.simps) simp
    with m have "pow2_scale q = 2 ^ Suc m \<and> 2 ^ 52 \<le> q * 2 ^ Suc m \<and> q * 2 ^ Suc m < 2 ^ 53"
      by (simp add: mult.assoc mult.left_commute)
    then show ?thesis by blast
  next
    case False
    with "1.prems" have "pow2_scale q = 1"
      by (subst pow2_scale.simps) simp
    with False "1.prems" have "pow2_scale q = 2 ^ 0 \<and> 2 ^ 52 \<le> q * 2 ^ 0 \<and> q * 2 ^ 0 < 2 ^ 53"
      by simp
    then show ?thesis by blast
  qed
qed

lemma round_half_even_of_int: "round_half_even (of_int z) = z"
  by (simp add: round_half_even_def)

lemma round_double_of_int:
  assumes "\<bar>n\<bar> < 2 ^ 53"
  shows "round_double (of_int n) = Some (of_int n)"
proof (cases "n = 0")
  case True
  then show ?thesis
    by (simp add: round_double_def pow2_scale.simps round_half_even_def double_max_def)
next
  case False
  define q :: rat where "q = \<bar>of_int n\<bar>"
  have q1: "1 \<le> q" using False by (simp add: q_def flip: of_int_abs)
  have q2: "q < 2 ^ 53"
  proof -
    have "(of_int \<bar>n\<bar> :: rat) < of_int (2 ^ 53)" using assms by (simp only: of_int_less_iff)
    then show ?thesis by (simp add: q_def)
  qed
  from pow2_scale_small [of q] q1 q2 obtain m where
    m: "pow2_scale q = 2 ^ m" "q * 2 ^ m < 2 ^ 53" by auto
  have "(2::rat) ^ m \<le> q * 2 ^ m" using q1 by simp
  with m have "(2::rat) ^ m < 2 ^ 53" by linarith
  then have "m < 53" using power_less_imp_less_exp [of "2::rat" m 53] by simp
  then have "(2::rat) ^ m \<le> 2 ^ 1074" using power_increasing [of m 1074 "2::rat"] by simp
  then have p: "min (pow2_scale \<bar>of_int n\<bar>) (2 ^ 1074) = (2::rat) ^ m"
    using m by (simp add: q_def)
  have "(of_int n :: rat) * 2 ^ m = of_int (n * 2 ^ m)" by simp
  then have r: "round_half_even (of_int n * 2 ^ m) = n * 2 ^ m"
    by (simp only: round_half_even_of_int)
  have "q \<le> double_max" using q2 by (simp add: double_max_def)
  then show ?thesis
    unfolding round_double_def Let_def p r by (simp add: q_def)
qed

lemma find_event_eid: "find_event i es = Some e \<Longrightarrow> eid e = i"
  by (induction es) (auto split: if_splits)

lemma set_status_update:
  "find_event i es = Some e \<Longrightarrow>
     \<exists>k. k < length es \<and> es ! k = e \<and> (\<forall>j. j < k \<longrightarrow> eid (es ! j) \<noteq> i)
       \<and> set_status i s es = Some (es[k := e\<lparr>status := s\<rparr>])"
proof (induction es)
  case Nil
  then show ?case by simp
next
  case (Cons a es)
  show ?case
  proof (cases "eid a = i")
    case True
    with Cons.prems have "a = e" by simp
    with True have "0 < length (a # es) \<and> (a # es) ! 0 = e \<and> (\<forall>j. j < 0 \<longrightarrow> eid ((a # es) ! j) \<noteq> i)
       \<and> set_status i s (a # es) = Some ((a # es)[0 := e\<lparr>status := s\<rparr>])"
      by simp
    then show ?thesis by blast
  next
    case False
    with Cons.prems have "find_event i es = Some e" by simp
    from Cons.IH [OF this] obtain k where
      k: "k < length es" "es ! k = e" "\<forall>j. j < k \<longrightarrow> eid (es ! j) \<noteq> i"
         "set_status i s es = Some (es[k := e\<lparr>status := s\<rparr>])"
      by blast
    have "\<forall>j. j < Suc k \<longrightarrow> eid ((a # es) ! j) \<noteq> i"
      using False k(3) by (auto simp: less_Suc_eq_0_disj)
    with k False have "Suc k < length (a # es) \<and> (a # es) ! Suc k = e
       \<and> (\<forall>j. j < Suc k \<longrightarrow> eid ((a # es) ! j) \<noteq> i)
       \<and> set_status i s (a # es) = Some ((a # es)[Suc k := e\<lparr>status := s\<rparr>])"
      by simp
    then show ?thesis by blast
  qed
qed

lemma approveEvent_frame:
  "set_status i ''approved'' (events (app st)) = Some es \<Longrightarrow>
     app (snd (approveEvent i st)) = (app st)\<lparr>events := es\<rparr>"
  by (simp add: approveEvent_def Let_def saveUserData_def)

lemma declineEvent_frame:
  "set_status i ''declined'' (events (app st)) = Some es \<Longrightarrow>
     app (snd (declineEvent i st)) = (app st)\<lparr>events := es\<rparr>"
  by (simp add: declineEvent_def Let_def saveUserData_def)

section \<open>The claims\<close>

text \<open>
  C1, as the code has it. \<^verbatim>\<open>createEvent\<close> of the localStorage application reads the
  role of the current user and nothing else: for a logged-in user and two valid dates it
  succeeds, and the status of the event it appends is \<^verbatim>\<open>approved\<close> when the role is
  \<^verbatim>\<open>admin\<close> and \<^verbatim>\<open>pending\<close> for every other role. The form has no flag saying whether the
  event requires approval.
\<close>

theorem createEvent_status:
  assumes "currentUser (app st) = Some u" "form_start_time form = Some s" "form_end_time form = Some e"
  shows "fst (createEvent form now st) = None \<and>
     map status (events (app (snd (createEvent form now st)))) =
       map status (events (app st)) @ [if role u = ''admin'' then ''approved'' else ''pending'']"
  using assms by (simp add: createEvent_ok saveUserData_def)

theorem createEvent_status_witness:
  "map_option role (currentUser (app (demo_state ''admin''))) = Some ''admin''
   \<and> form_start_time seminar_form = Some 259200000
   \<and> form_end_time seminar_form = Some 262800000
   \<and> fst (createEvent seminar_form 5000 (demo_state ''admin'')) = None \<and>
   map status (events (app (snd (createEvent seminar_form 5000 (demo_state ''admin''))))) =
     [''approved'', ''pending'', ''approved'']"
  using createEvent_status [of "demo_state ''admin''" _ seminar_form 259200000 262800000 5000]
  by (simp add: demo_state_simps seminar_form_def sampleEvents_def)

text \<open>
  C1 as the specification states it fails for a student: by the specification's rule a
  student's event that does not require approval starts \<^verbatim>\<open>approved\<close>, while every event a
  student creates starts \<^verbatim>\<open>pending\<close>.
\<close>

theorem createEvent_status_counterexample:
  "map_option role (currentUser (app (demo_state ''student''))) = Some ''student''
   \<and> spec_initial_status ''student'' False = ''approved''
   \<and> fst (createEvent seminar_form 5000 (demo_state ''student'')) = None
   \<and> map status (events (app (snd (createEvent seminar_form 5000 (demo_state ''student'')))))
       = [''approved'', ''pending'', ''pending'']"
  by (simp add: createEvent_ok [where s = 259200000 and e = 262800000] demo_state_simps
      seminar_form_def saveUserData_def sampleEvents_def spec_initial_status_def)

text \<open>
  C3, as the code has it. \<^verbatim>\<open>approveEvent\<close> and \<^verbatim>\<open>declineEvent\<close> check neither the status
  the event has nor the role of the current user. When no event has the id they throw a
  \<^verbatim>\<open>TypeError\<close> and change nothing; when one has it and a user is logged in, they succeed
  and the first event with the id gets the status \<^verbatim>\<open>approved\<close>, respectively \<^verbatim>\<open>declined\<close>.
\<close>

theorem approve_decline_unguarded:
  "(find_event i (events (app st)) = None \<longrightarrow>
      approveEvent i st = (Some TypeError, st) \<and> declineEvent i st = (Some TypeError, st))
   \<and> (find_event i (events (app st)) = Some e \<and> currentUser (app st) = Some u \<longrightarrow>
      fst (approveEvent i st) = None
      \<and> find_event i (events (app (snd (approveEvent i st)))) = Some (e\<lparr>status := ''approved''\<rparr>)
      \<and> fst (declineEvent i st) = None
      \<and> find_event i (events (app (snd (declineEvent i st)))) = Some (e\<lparr>status := ''declined''\<rparr>))"
  using approveEvent_absent [of i st] declineEvent_absent [of i st]
    approveEvent_present [of i st e] declineEvent_present [of i st e]
  by (auto simp: showDashboard_def)

theorem approve_decline_unguarded_witness:
  "find_event 7 (events (app (demo_state ''teacher''))) = None
   \<and> approveEvent 7 (demo_state ''teacher'') = (Some TypeError, demo_state ''teacher'')
   \<and> declineEvent 7 (demo_state ''teacher'') = (Some TypeError, demo_state ''teacher'')
   \<and> map_option status (find_event 1 (events (app (demo_state ''teacher'')))) = Some ''approved''
   \<and> map_option role (currentUser (app (demo_state ''teacher''))) = Some ''teacher''
   \<and> fst (approveEvent 1 (demo_state ''teacher'')) = None
   \<and> map_option status (find_event 1 (events (app (snd (approveEvent 1 (demo_state ''teacher''))))))
       = Some ''approved''
   \<and> fst (declineEvent 1 (demo_state ''teacher'')) = None
   \<and> map_option status (find_event 1 (events (app (snd (declineEvent 1 (demo_state ''teacher''))))))
       = Some ''declined''"
  using approve_decline_unguarded [of 7 "demo_state ''teacher''"]
    approve_decline_unguarded [of 1 "demo_state ''teacher''" "hd (sampleEvents (0, 0, 0, 0))"
      "the (currentUser (app (demo_state ''teacher'')))"]
  by (simp add: demo_state_simps sampleEvents_def)

text \<open>
  C3 as the specification states it fails: with a student logged in, approving the
  already approved event 1 raises no error, approving the pending event 2 succeeds and
  makes it \<^verbatim>\<open>approved\<close>, and declining the approved event 1 makes it \<^verbatim>\<open>declined\<close>.
\<close>

theorem approve_decline_unguarded_counterexample:
  "map_option role (currentUser (app (demo_state ''student''))) = Some ''student''
   \<and> map status (events (app (demo_state ''student''))) = [''approved'', ''pending'']
   \<and> fst (approveEvent 1 (demo_state ''student'')) = None
   \<and> fst (approveEvent 2 (demo_state ''student'')) = None
   \<and> map status (events (app (snd (approveEvent 2 (demo_state ''student''))))) = [''approved'', ''approved'']
   \<and> fst (declineEvent 1 (demo_state ''student'')) = None
   \<and> map status (events (app (snd (declineEvent 1 (demo_state ''student''))))) = [''declined'', ''pending'']"
  by (simp add: approveEvent_def declineEvent_def demo_state_simps sampleEvents_def Let_def
      showDashboard_def saveUserData_def)

text \<open>
  C4, as the code has it. No handler of the page appends to \<^verbatim>\<open>APP.approvals\<close>: creating a
  schedule or an event, approving, declining, loading the sample data and logging in all
  leave the list as it was. An approve or a decline of an id some event has only
  overwrites a status: \<^verbatim>\<open>APP\<close> afterwards is \<^verbatim>\<open>APP\<close> before, but for the first event with
  that id, which carries the new status and is otherwise the same.
\<close>

theorem approvals_never_appended:
  "approvals (app (snd (perform toUpperCase op st))) = approvals (app st)
   \<and> (find_event i (events (app st)) = Some e \<longrightarrow>
        (\<exists>k. k < length (events (app st)) \<and> events (app st) ! k = e
           \<and> (\<forall>j. j < k \<longrightarrow> eid (events (app st) ! j) \<noteq> i)
           \<and> app (snd (approveEvent i st)) =
                (app st)\<lparr>events := (events (app st))[k := e\<lparr>status := ''approved''\<rparr>]\<rparr>
           \<and> app (snd (declineEvent i st)) =
                (app st)\<lparr>events := (events (app st))[k := e\<lparr>status := ''declined''\<rparr>]\<rparr>))"
proof
  show "approvals (app (snd (perform toUpperCase op st))) = approvals (app st)"
    by (cases op)
      (auto simp: createSchedule_def createEvent_def approveEvent_def declineEvent_def
        loadSampleData_def quickLogin_def handleLogin_def saveUserData_def Let_def
        split: option.splits prod.splits)
next
  show "find_event i (events (app st)) = Some e \<longrightarrow>
        (\<exists>k. k < length (events (app st)) \<and> events (app st) ! k = e
           \<and> (\<forall>j. j < k \<longrightarrow> eid (events (app st) ! j) \<noteq> i)
           \<and> app (snd (approveEvent i st)) =
                (app st)\<lparr>events := (events (app st))[k := e\<lparr>status := ''approved''\<rparr>]\<rparr>
           \<and> app (snd (declineEvent i st)) =
                (app st)\<lparr>events := (events (app st))[k := e\<lparr>status := ''declined''\<rparr>]\<rparr>)"
  proof
    assume f: "find_event i (events (app st)) = Some e"
    from set_status_update [OF f, of "''approved''"] obtain k where
      k: "k < length (events (app st))" "events (app st) ! k = e"
         "\<forall>j. j < k \<longrightarrow> eid (events (app st) ! j) \<noteq> i"
         "set_status i ''approved'' (events (app st)) = Some ((events (app st))[k := e\<lparr>status := ''approved''\<rparr>])"
      by blast
    from set_status_update [OF f, of "''declined''"] obtain k' where
      k': "k' < length (events (app st))" "events (app st) ! k' = e"
         "\<forall>j. j < k' \<longrightarrow> eid (events (app st) ! j) \<noteq> i"
         "set_status i ''declined'' (events (app st)) = Some ((events (app st))[k' := e\<lparr>status := ''declined''\<rparr>])"
      by blast
    have ide: "eid e = i" using f by (rule find_event_eid)
    have "k' = k"
    proof (rule ccontr)
      assume "k' \<noteq> k"
      then consider "k' < k" | "k < k'" by linarith
      then show False
      proof cases
        case 1
        with k(3) k'(2) ide show False by auto
      next
        case 2
        with k'(3) k(2) ide show False by auto
      qed
    qed
    with k k' approveEvent_frame [OF k(4)] declineEvent_frame [OF k'(4)]
    show "\<exists>k. k < length (events (app st)) \<and> events (app st) ! k = e
           \<and> (\<forall>j. j < k \<longrightarrow> eid (events (app st) ! j) \<noteq> i)
           \<and> app (snd (approveEvent i st)) =
                (app st)\<lparr>events := (events (app st))[k := e\<lparr>status := ''approved''\<rparr>]\<rparr>
           \<and> app (snd (declineEvent i st)) =
                (app st)\<lparr>events := (events (app st))[k := e\<lparr>status := ''declined''\<rparr>]\<rparr>"
      by blast
  qed
qed

theorem approvals_never_appended_witness:
  "approvals (app (snd (perform ascii_toUpperCase (ApproveEvent 2) (demo_state ''admin'')))) = []
   \<and> map_option title (find_event 2 (events (app (demo_state ''admin'')))) = Some ''Physics Lab''
   \<and> app (snd (approveEvent 2 (demo_state ''admin''))) =
       (app (demo_state ''admin''))\<lparr>events :=
          (events (app (demo_state ''admin'')))
            [1 := (events (app (demo_state ''admin'')) ! 1)\<lparr>status := ''approved''\<rparr>]\<rparr>
   \<and> app (snd (declineEvent 2 (demo_state ''admin''))) =
       (app (demo_state ''admin''))\<lparr>events :=
          (events (app (demo_state ''admin'')))
            [1 := (events (app (demo_state ''admin'')) ! 1)\<lparr>status := ''declined''\<rparr>]\<rparr>
   \<and> map status (events (app (snd (approveEvent 2 (demo_state ''admin''))))) = [''approved'', ''approved'']
   \<and> map title (events (app (snd (approveEvent 2 (demo_state ''admin''))))) = [''Math 101'', ''Physics Lab'']"
  using approvals_never_appended [of ascii_toUpperCase "ApproveEvent 2" "demo_state ''admin''" 2
      "sampleEvents (0, 0, 0, 0) ! 1"]
  by (simp add: demo_state_simps sampleEvents_def approveEvent_def declineEvent_def Let_def
      saveUserData_def)

text \<open>
  C4 as the specification states it fails: an administrator approves the pending event
  2, the approval succeeds and the status becomes \<^verbatim>\<open>approved\<close>, and the history is as
  empty as before, so no entry was appended and the status has no latest record to
  equal.
\<close>

theorem approvals_never_appended_counterexample:
  "map status (events (app (demo_state ''admin''))) = [''approved'', ''pending'']
   \<and> approvals (app (demo_state ''admin'')) = []
   \<and> fst (approveEvent 2 (demo_state ''admin'')) = None
   \<and> map status (events (app (snd (approveEvent 2 (demo_state ''admin''))))) = [''approved'', ''approved'']
   \<and> approvals (app (snd (approveEvent 2 (demo_state ''admin'')))) = []
   \<and> length (approvals (app (snd (approveEvent 2 (demo_state ''admin''))))) \<noteq>
       length (approvals (app (demo_state ''admin''))) + 1"
  by (simp add: approveEvent_def demo_state_simps sampleEvents_def Let_def
      showDashboard_def saveUserData_def)

text \<open>
  C5, as the code has it. \<^verbatim>\<open>createEvent\<close> compares the two times with nothing: for a
  logged-in user and two valid dates it succeeds and appends one event that carries
  exactly the start and the end of the form, in whatever order they are.
\<close>

theorem createEvent_no_interval_check:
  assumes "currentUser (app st) = Some u" "form_start_time form = Some s" "form_end_time form = Some e"
  shows "fst (createEvent form now st) = None \<and>
     (\<exists>ev. events (app (snd (createEvent form now st))) = events (app st) @ [ev]
        \<and> start_time ev = s \<and> end_time ev = e)"
  using assms by (simp add: createEvent_ok saveUserData_def)

theorem createEvent_no_interval_check_witness:
  "map_option role (currentUser (app (demo_state ''teacher''))) = Some ''teacher''
   \<and> form_start_time backwards_form = Some 262800000
   \<and> form_end_time backwards_form = Some 259200000
   \<and> fst (createEvent backwards_form 5000 (demo_state ''teacher'')) = None \<and>
   (\<exists>ev. events (app (snd (createEvent backwards_form 5000 (demo_state ''teacher'')))) =
       events (app (demo_state ''teacher'')) @ [ev]
     \<and> start_time ev = 262800000 \<and> end_time ev = 259200000)"
  using createEvent_no_interval_check [of "demo_state ''teacher''" _ backwards_form
      262800000 259200000 5000]
  by (simp add: demo_state_simps backwards_form_def)

text \<open>
  C5 as the specification states it fails: an event whose start lies an hour after its
  end is created without any error and stored with these times.
\<close>

theorem createEvent_no_interval_check_counterexample:
  "fst (createEvent backwards_form 5000 (demo_state ''teacher'')) = None
   \<and> map start_time (events (app (snd (createEvent backwards_form 5000 (demo_state ''teacher'')))))
       = [86400000, 172800000, 262800000]
   \<and> map end_time (events (app (snd (createEvent backwards_form 5000 (demo_state ''teacher'')))))
       = [90000000, 176400000, 259200000]
   \<and> (262800000 :: int) \<ge> 259200000"
  by (simp add: createEvent_ok [where s = 262800000 and e = 259200000] demo_state_simps
      backwards_form_def saveUserData_def sampleEvents_def)




text \<open>
  C6, on the code. When the request fails, be it that \<^verbatim>\<open>fetch\<close> rejects or that
  \<^verbatim>\<open>response.json()\<close> does, \<^verbatim>\<open>getSuggestedTimes\<close> returns the object a server with no
  suggestion returns, and it has no \<^verbatim>\<open>error\<close> property; the two sibling queries put the
  message of the failure into the property \<^verbatim>\<open>error\<close> of their results.
\<close>

theorem getSuggestedTimes_failure_like_success:
  "getSuggestedTimes (\<lambda>req. Rejected msg) scheduleId startTime endTime minutesOrNull
     = getSuggestedTimes no_suggestions_server scheduleId startTime endTime minutesOrNull
   \<and> getSuggestedTimes (\<lambda>req. Resolved \<lparr>ok = b, json_result = Inl msg\<rparr>) scheduleId startTime
        endTime minutesOrNull
     = getSuggestedTimes no_suggestions_server scheduleId startTime endTime minutesOrNull
   \<and> field ''error'' (getSuggestedTimes (\<lambda>req. Rejected msg) scheduleId startTime endTime
        minutesOrNull) = None
   \<and> field ''error'' (checkEventOverlap (\<lambda>req. Rejected msg) scheduleId startTime endTime
        excludeEventId) = Some (JStr msg)
   \<and> field ''error'' (checkFacilityAvailability (\<lambda>req. Rejected msg) building roomNumber
        startTime endTime) = Some (JStr msg)"
  by (simp add: getSuggestedTimes_def checkEventOverlap_def checkFacilityAvailability_def
      post_json_def no_suggestions_server_def)

text \<open>
  C9. The drag-and-drop module's \<^verbatim>\<open>checkEventOverlap\<close> consults no events at all: for every
  schedule, interval and excluded event, hence also where nothing is booked, its result
  has \<^verbatim>\<open>has_overlap\<close> false and no \<^verbatim>\<open>error\<close> property.
\<close>

theorem mock_checkEventOverlap_no_conflict:
  "field ''has_overlap'' (mock_checkEventOverlap scheduleId startTime endTime eventId)
     = Some (JBool False)
   \<and> \<not> truthy (field ''has_overlap'' (mock_checkEventOverlap scheduleId startTime endTime eventId))
   \<and> field ''error'' (mock_checkEventOverlap scheduleId startTime endTime eventId) = None"
  by (simp add: mock_checkEventOverlap_def)

text \<open>
  C7, on the code. An event from 00:00:00 to 00:02:03 on 1 January 1970 (UTC) is dropped
  on the date and hour it already has. The duration goes through minutes as a double and
  back, and the new end is 00:02:02.999: both handlers send an interval one millisecond
  shorter, and its duration in minutes differs from the original one.
\<close>

theorem reschedule_changes_duration:
  "newEndTime (Some 0) (durationMinutes (Some 0) (Some 123000)) = Some 122999
   \<and> durationMinutes (Some 0) (Some 122999) \<noteq> durationMinutes (Some 0) (Some 123000)
   \<and> handleEventDroppedOnDate utc (Some short_talk) (Some 0) = Some (put_event (JNum 7) 0 122999)
   \<and> rescheduleEvent utc 0 (Some short_talk) (Some 0) (Some 0) = Inr (Some (put_event (JNum 7) 0 122999))"
  by (simp add: duration_short_talk newEnd_short_talk duration_shortened
      handleEventDroppedOnDate_def rescheduleEvent_def utc_def short_talk_def
      mock_checkEventOverlap_def)

text \<open>
  C8. The role \<^verbatim>\<open>extractRole\<close> gives is decided by the substrings of the address: \<^verbatim>\<open>admin\<close>
  when it contains \<^verbatim>\<open>admin\<close>, else \<^verbatim>\<open>teacher\<close> when it contains \<^verbatim>\<open>teacher\<close>, else
  \<^verbatim>\<open>student\<close>; it is always one of the three. \<^verbatim>\<open>handleLogin\<close> with a non-empty address and
  any non-empty password logs the user in with that role: the password is compared with
  nothing.
\<close>

theorem extractRole_substring:
  "extractRole mail =
     (if sublist ''admin'' mail then ''admin''
      else if sublist ''teacher'' mail then ''teacher'' else ''student'')
   \<and> extractRole mail \<in> {''admin'', ''teacher'', ''student''}
   \<and> (mail \<noteq> [] \<and> password \<noteq> [] \<longrightarrow>
        map_option role (currentUser (app (snd (handleLogin toUpperCase mail password rnd now st))))
          = Some (extractRole mail))"
  by (simp add: extractRole_def sublist_js_includes handleLogin_def quickLogin_def
      loadSampleData_def saveUserData_def showDashboard_def Let_def
      split: prod.splits option.splits)

theorem extractRole_substring_witness:
  "sublist ''admin'' ''teacher.admin@campus.edu'' \<and> sublist ''teacher'' ''teacher.admin@campus.edu''
   \<and> extractRole ''teacher.admin@campus.edu'' = ''admin''
   \<and> ''teacher.admin@campus.edu'' \<noteq> [] \<and> ''wrong password'' \<noteq> []
   \<and> map_option role (currentUser (app (snd (handleLogin ascii_toUpperCase ''teacher.admin@campus.edu''
         ''wrong password'' ''k3j9x0q1z'' (0, 0, 0, 0) initial_state)))) = Some ''admin''"
  using extractRole_substring [of "''teacher.admin@campus.edu''" "''wrong password''"
      ascii_toUpperCase "''k3j9x0q1z''" "(0, 0, 0, 0)" initial_state]
  by (auto simp: sublist_js_includes)

text \<open>
  C10. \<^verbatim>\<open>loadSampleData\<close> called on the state a first call left gives the result of the
  first call, whatever the clock shows by then; and with a schedule in \<^verbatim>\<open>APP.schedules\<close>
  it changes nothing at all.
\<close>

theorem loadSampleData_idempotent:
  "loadSampleData now' (snd (loadSampleData now st)) = loadSampleData now st
   \<and> (schedules (app st) \<noteq> [] \<longrightarrow> loadSampleData now st = (None, st))"
  by (simp add: loadSampleData_def saveUserData_def sampleSchedules_def split: option.splits)

theorem loadSampleData_idempotent_witness:
  "schedules (app (demo_state ''teacher'')) \<noteq> []
   \<and> loadSampleData (5, 6, 7, 8) (demo_state ''teacher'') = (None, demo_state ''teacher'')
   \<and> loadSampleData (5, 6, 7, 8) (snd (loadSampleData (1, 2, 3, 4) (demo_state ''teacher'')))
       = loadSampleData (1, 2, 3, 4) (demo_state ''teacher'')"
  using loadSampleData_idempotent [of "(5, 6, 7, 8)" "(1, 2, 3, 4)" "demo_state ''teacher''"]
    loadSampleData_idempotent [of "(5, 6, 7, 8)" "(5, 6, 7, 8)" "demo_state ''teacher''"]
  by (simp add: demo_state_simps sampleSchedules_def)

section \<open>Further properties\<close>

text \<open>
  Rescheduling is exact for a duration of whole minutes: when the event's end and start
  differ by a multiple of 60000 milliseconds below \<open>2 ^ 53\<close> and the new end is a valid
  time value, the new end is the new start plus the old difference.
\<close>

theorem newEndTime_whole_minutes:
  assumes "60000 dvd (e - s)" "\<bar>e - s\<bar> < 2 ^ 53" "\<bar>ns + (e - s)\<bar> \<le> 8640000000000000"
  shows "newEndTime (Some ns) (durationMinutes (Some s) (Some e)) = Some (ns + (e - s))"
proof -
  from assms(1) obtain k where k: "e - s = 60000 * k" by (auto simp: dvd_def)
  have kb: "\<bar>k\<bar> < 2 ^ 53" "\<bar>k * 60\<bar> < 2 ^ 53" "\<bar>k * 60 * 1000\<bar> < 2 ^ 53"
    using assms(2) k by (simp_all add: abs_mult)
  have "round_double (of_int (e - s)) = Some (of_int (e - s))"
    using round_double_of_int assms(2) by blast
  then have sub: "round_double (of_int e - of_int s) = Some (of_int (60000 * k))"
    unfolding k [symmetric] by (simp only: of_int_diff)
  have c: "round_double 60000 = Some 60000"
    using round_double_of_int [of 60000] by simp
  have d: "durationMinutes (Some s) (Some e) = Some (of_int k)"
    using round_double_of_int [OF kb(1)]
    by (simp add: durationMinutes_def num_div_def num_sub_def num_mul_def getTime_def sub c)
  have m1: "round_double (of_int k * 60) = Some (of_int (k * 60))"
    using round_double_of_int [OF kb(2)] by simp
  have m2: "round_double (of_int (k * 60) * 1000) = Some (of_int (k * 60 * 1000))"
    using round_double_of_int [OF kb(3)] by simp
  have "\<bar>ns + k * 60 * 1000\<bar> < 2 ^ 53" using assms(3) k by simp
  from round_double_of_int [OF this]
  have a: "round_double (of_int ns + of_int (k * 60 * 1000)) = Some (of_int (ns + k * 60 * 1000))"
    by simp
  have "\<bar>of_int (ns + k * 60 * 1000) :: rat\<bar> \<le> 8640000000000000"
  proof -
    have "(of_int \<bar>ns + k * 60 * 1000\<bar> :: rat) \<le> of_int 8640000000000000"
      using assms(3) k by (simp only: of_int_le_iff)
    then show ?thesis by simp
  qed
  then have t: "TimeClip (Some (of_int (ns + k * 60 * 1000))) = Some (ns + k * 60 * 1000)"
    unfolding TimeClip_def by (simp del: of_int_add of_int_mult)
  show ?thesis
    unfolding d newEndTime_def num_mul_def num_add_def getTime_def
    using m1 m2 a t k by simp
qed

theorem newEndTime_whole_minutes_witness:
  "(60000::int) dvd (1740826800000 - 1740823200000)
   \<and> \<bar>1740826800000 - 1740823200000 :: int\<bar> < 2 ^ 53
   \<and> \<bar>1741082400000 + (1740826800000 - 1740823200000) :: int\<bar> \<le> 8640000000000000
   \<and> newEndTime (Some 1741082400000) (durationMinutes (Some 1740823200000) (Some 1740826800000))
       = Some 1741086000000"
  using newEndTime_whole_minutes [of 1740826800000 1740823200000 1741082400000]
  by simp

end
